theory Spec2Isabelle
  imports Complex_Main "HOL-Library.AList" "HOL-Library.Monad_Syntax"
begin

section \<open>Data model\<close>

text \<open>
  The checks of \<^verbatim>\<open>JiraCheckTool\<close> read a Jira issue through attribute access
  (\<^verbatim>\<open>issue.fields.duedate\<close>, \<^verbatim>\<open>issue.fields.issuetype.name\<close>, ...). The records below
  hold exactly the attributes that the checks read.

  Text is a \<open>string\<close>: ASCII characters are themselves, any other character is carried
  as its UTF-8 bytes and is not interpreted. A field that Python holds as \<^verbatim>\<open>None\<close> is
  \<open>None\<close> here. Of a component, a fix version and the security level only the name is read,
  so \<open>components\<close> and \<open>fixVersions\<close> are lists of names and \<open>security\<close> is the name of the
  security level (\<open>None\<close> when \<^verbatim>\<open>issue.fields.security\<close> is \<^verbatim>\<open>None\<close>). The story points
  (\<^verbatim>\<open>customfield_10408\<close>) are the number that the JSON parser has produced, an \<^verbatim>\<open>int\<close> or
  a \<^verbatim>\<open>float\<close>; the rational is the exact value of that number (not of the JSON text,
  which the parser may have rounded).
  \<open>comment\<close> is the list of the bodies of \<^verbatim>\<open>issue.fields.comment.comments\<close>.
\<close>

record IssueType =
  name :: string
  subtask :: bool

record Fields =
  issuetype :: IssueType
  duedate :: "string option"
  resolutiondate :: "string option"
  fixVersions :: "string list"
  components :: "string list"
  labels :: "string list option"
  customfield_11807 :: "string option"
  security :: "string option"
  customfield_10408 :: "rat option"
  comment :: "string list"

text \<open>\<open>issue_fields\<close> is \<^verbatim>\<open>issue.fields\<close>.\<close>

record Issue =
  key :: string
  issue_fields :: Fields

record JiraProject =
  project_name :: string
  project_key :: string
  issues :: "Issue list"
  project_manager :: string
  manager_phone :: string

text \<open>The exceptions that the checks can raise on such an issue.\<close>

datatype error = ValueError | AttributeError

section \<open>Dates\<close>

text \<open>
  A \<^verbatim>\<open>date\<close> is (year, month, day); a naive \<^verbatim>\<open>datetime\<close> is a date with
  (hour, minute, second, microsecond). Python orders both lexicographically.
\<close>

type_synonym date = "int \<times> int \<times> int"
type_synonym datetime = "date \<times> int \<times> int \<times> int \<times> int"

fun date_gt :: "date \<Rightarrow> date \<Rightarrow> bool" where
  "date_gt (y1, m1, d1) (y2, m2, d2) =
     (y1 > y2 \<or> (y1 = y2 \<and> (m1 > m2 \<or> (m1 = m2 \<and> d1 > d2))))"

fun datetime_gt :: "datetime \<Rightarrow> datetime \<Rightarrow> bool" where
  "datetime_gt (d1, h1, mi1, s1, us1) (d2, h2, mi2, s2, us2) =
     (date_gt d1 d2 \<or> (d1 = d2 \<and> (h1 > h2 \<or> (h1 = h2 \<and> (mi1 > mi2 \<or> (mi1 = mi2 \<and>
        (s1 > s2 \<or> (s1 = s2 \<and> us1 > us2))))))))"

text \<open>\<^verbatim>\<open>datetime.date()\<close>\<close>

fun date_of :: "datetime \<Rightarrow> date" where
  "date_of (d, t) = d"

definition is_leap :: "int \<Rightarrow> bool" where
  "is_leap y = (y mod 4 = 0 \<and> (y mod 100 \<noteq> 0 \<or> y mod 400 = 0))"

definition days_in_month :: "int \<Rightarrow> int \<Rightarrow> int" where
  "days_in_month y m =
     (if m = 2 then (if is_leap y then 29 else 28)
      else if m = 4 \<or> m = 6 \<or> m = 9 \<or> m = 11 then 30 else 31)"

text \<open>The range check of the \<^verbatim>\<open>date\<close> constructor, which raises ValueError.\<close>

definition valid_date :: "int \<Rightarrow> int \<Rightarrow> int \<Rightarrow> bool" where
  "valid_date y m d =
     (1 \<le> y \<and> y \<le> 9999 \<and> 1 \<le> m \<and> m \<le> 12 \<and> 1 \<le> d \<and> d \<le> days_in_month y m)"

section \<open>Text\<close>

text \<open>
  \<^verbatim>\<open>str.lower()\<close> on ASCII letters, and \<^verbatim>\<open>sub in s\<close>. The bytes of other characters are
  left as they are, so \<open>lower\<close> is \<^verbatim>\<open>str.lower()\<close> on ASCII text. On other text the two
  differ: Python also maps the letters beyond ASCII, of which U+0130 and U+212A have a
  lower case with an ASCII letter in it (\<^verbatim>\<open>i\<close> and \<^verbatim>\<open>k\<close>), so that a comment with one of
  these two characters can hold a marker for Python that the model does not find.
\<close>

text \<open>Text of ASCII characters only.\<close>

definition is_ascii :: "string \<Rightarrow> bool" where
  "is_ascii s = list_all (\<lambda>c. (of_char c :: nat) < 128) s"

definition lower_char :: "char \<Rightarrow> char" where
  "lower_char c =
     (let n = (of_char c :: nat) in if 65 \<le> n \<and> n \<le> 90 then char_of (n + 32) else c)"

definition lower :: "string \<Rightarrow> string" where
  "lower s = map lower_char s"

fun startswith :: "string \<Rightarrow> string \<Rightarrow> bool" where
  "startswith s [] = True"
| "startswith [] (p # ps) = False"
| "startswith (x # xs) (p # ps) = (x = p \<and> startswith xs ps)"

fun py_in :: "string \<Rightarrow> string \<Rightarrow> bool" where
  "py_in sub [] = (sub = [])"
| "py_in sub (x # xs) = (startswith (x # xs) sub \<or> py_in sub xs)"

section \<open>\<^verbatim>\<open>datetime.strptime\<close>\<close>

text \<open>
  \<^verbatim>\<open>strptime\<close> turns the format into a regular expression, matches it at the start of
  the text, rejects text left over after the match and converts the groups. The
  expressions are small, so the matcher below is the backtracking matcher itself: it
  lists the ways a pattern matches a prefix of the text, as (matched text, rest), in
  the order in which backtracking tries them. The match that Python finds is the first
  of the list.

  The digits of the model are the ASCII digits. Python's \<^verbatim>\<open>\d\<close> and \<^verbatim>\<open>int()\<close> accept the
  decimal digits of every script, so on ASCII text (\<open>is_ascii\<close>) the model is the
  function, and on other text it can reject a date that Python parses (a year in
  full-width digits, for one).
\<close>

datatype re =
  Lit char
  | Rng char char
  | Cat re re
  | Alt re re
  | Opt re

fun rmatch :: "re \<Rightarrow> string \<Rightarrow> (string \<times> string) list" where
  "rmatch (Lit c) s = (case s of [] \<Rightarrow> [] | x # xs \<Rightarrow> if x = c then [([x], xs)] else [])"
| "rmatch (Rng a b) s =
     (case s of [] \<Rightarrow> []
      | x # xs \<Rightarrow>
          if (of_char a :: nat) \<le> of_char x \<and> (of_char x :: nat) \<le> of_char b
          then [([x], xs)] else [])"
| "rmatch (Cat p q) s =
     concat (map (\<lambda>(t, r). map (\<lambda>(u, r'). (t @ u, r')) (rmatch q r)) (rmatch p s))"
| "rmatch (Alt p q) s = rmatch p s @ rmatch q s"
| "rmatch (Opt p) s = rmatch p s @ [([], s)]"

text \<open>\<^verbatim>\<open>\d\<close>, and a digit of a range such as \<^verbatim>\<open>[0-5]\<close>\<close>

definition re_digit :: re where
  "re_digit = Rng (CHR ''0'') (CHR ''9'')"

text \<open>The patterns of the directives, as in \<^verbatim>\<open>_strptime.TimeRE\<close> of CPython 3.11.\<close>

definition re_Y :: re where    \<comment> \<open>\<^verbatim>\<open>\d\d\d\d\<close>\<close>
  "re_Y = Cat re_digit (Cat re_digit (Cat re_digit re_digit))"

definition re_m :: re where    \<comment> \<open>\<^verbatim>\<open>1[0-2]|0[1-9]|[1-9]\<close>\<close>
  "re_m = Alt (Cat (Lit (CHR ''1'')) (Rng (CHR ''0'') (CHR ''2'')))
         (Alt (Cat (Lit (CHR ''0'')) (Rng (CHR ''1'') (CHR ''9'')))
              (Rng (CHR ''1'') (CHR ''9'')))"

definition re_d :: re where    \<comment> \<open>\<^verbatim>\<open>3[0-1]|[1-2]\d|0[1-9]|[1-9]| [1-9]\<close>\<close>
  "re_d = Alt (Cat (Lit (CHR ''3'')) (Rng (CHR ''0'') (CHR ''1'')))
         (Alt (Cat (Rng (CHR ''1'') (CHR ''2'')) re_digit)
         (Alt (Cat (Lit (CHR ''0'')) (Rng (CHR ''1'') (CHR ''9'')))
         (Alt (Rng (CHR ''1'') (CHR ''9''))
              (Cat (Lit (CHR '' '')) (Rng (CHR ''1'') (CHR ''9''))))))"

definition re_H :: re where    \<comment> \<open>\<^verbatim>\<open>2[0-3]|[0-1]\d|\d\<close>\<close>
  "re_H = Alt (Cat (Lit (CHR ''2'')) (Rng (CHR ''0'') (CHR ''3'')))
         (Alt (Cat (Rng (CHR ''0'') (CHR ''1'')) re_digit)
              re_digit)"

definition re_M :: re where    \<comment> \<open>\<^verbatim>\<open>[0-5]\d|\d\<close>\<close>
  "re_M = Alt (Cat (Rng (CHR ''0'') (CHR ''5'')) re_digit) re_digit"

definition re_S :: re where    \<comment> \<open>\<^verbatim>\<open>6[0-1]|[0-5]\d|\d\<close>\<close>
  "re_S = Alt (Cat (Lit (CHR ''6'')) (Rng (CHR ''0'') (CHR ''1'')))
         (Alt (Cat (Rng (CHR ''0'') (CHR ''5'')) re_digit)
              re_digit)"

text \<open>One to six digits, the longest first: \<^verbatim>\<open>[0-9]{1,6}\<close> and \<^verbatim>\<open>\d{1,6}\<close>.\<close>

definition re_digits_1_6 :: re where
  "re_digits_1_6 =
     Cat re_digit (Opt (Cat re_digit (Opt (Cat re_digit (Opt (Cat re_digit
       (Opt (Cat re_digit (Opt re_digit)))))))))"

definition re_f :: re where
  "re_f = re_digits_1_6"

text \<open>
  The pattern of \<^verbatim>\<open>%z\<close> is \<^verbatim>\<open>[+-]\d\d:?[0-5]\d(:?[0-5]\d(\.\d{1,6})?)?|(?-i:Z)\<close>;
  \<open>re_z_seconds\<close> is its inner group \<^verbatim>\<open>:?[0-5]\d(\.\d{1,6})?\<close>.
\<close>

definition re_z_seconds :: re where
  "re_z_seconds =
     Cat (Opt (Lit (CHR '':'')))
    (Cat (Rng (CHR ''0'') (CHR ''5''))
    (Cat re_digit
         (Opt (Cat (Lit (CHR ''.'')) re_digits_1_6))))"

definition re_z :: re where
  "re_z =
     Alt (Cat (Alt (Lit (CHR ''+'')) (Lit (CHR ''-'')))
         (Cat re_digit
         (Cat re_digit
         (Cat (Opt (Lit (CHR '':'')))
         (Cat (Rng (CHR ''0'') (CHR ''5''))
         (Cat re_digit
              (Opt re_z_seconds)))))))
         (Lit (CHR ''Z''))"

text \<open>
  A letter of the format matches in either case (the expression is compiled with
  \<^verbatim>\<open>IGNORECASE\<close>); the only letter of the two formats is \<^verbatim>\<open>T\<close>.
\<close>

definition re_T :: re where
  "re_T = Alt (Lit (CHR ''T'')) (Lit (CHR ''t''))"

text \<open>
  \<^verbatim>\<open>int(s)\<close> on the texts that the groups can hold: digits, with blanks around them
  allowed; \<open>None\<close> is ValueError.
\<close>

definition is_digit :: "char \<Rightarrow> bool" where
  "is_digit c = (48 \<le> (of_char c :: nat) \<and> (of_char c :: nat) \<le> 57)"

definition py_int :: "string \<Rightarrow> int option" where
  "py_int s =
     (let t = rev (dropWhile (\<lambda>c. c = CHR '' '') (rev (dropWhile (\<lambda>c. c = CHR '' '') s)))
      in if t \<noteq> [] \<and> list_all is_digit t
         then Some (foldl (\<lambda>n c. 10 * n + (of_char c - 48)) 0 t)
         else None)"

text \<open>
  \<^verbatim>\<open>datetime.strptime(s, '%Y-%m-%d')\<close>: the datetime at midnight of the day, or \<open>None\<close>
  for ValueError (no match, text left over, or a day that does not exist).
\<close>

definition match_Ymd :: "string \<Rightarrow> ((string \<times> string \<times> string) \<times> string) list" where
  "match_Ymd s =
     [((Y, m, d), r5).
        (Y, r1) \<leftarrow> rmatch re_Y s, (u, r2) \<leftarrow> rmatch (Lit (CHR ''-'')) r1,
        (m, r3) \<leftarrow> rmatch re_m r2, (v, r4) \<leftarrow> rmatch (Lit (CHR ''-'')) r3,
        (d, r5) \<leftarrow> rmatch re_d r4]"

definition strptime_Ymd :: "string \<Rightarrow> datetime option" where
  "strptime_Ymd s =
     (case match_Ymd s of
        [] \<Rightarrow> None
      | ((Y, m, d), rest) # others \<Rightarrow>
          if rest \<noteq> [] then None
          else do {
            y \<leftarrow> py_int Y;
            mo \<leftarrow> py_int m;
            da \<leftarrow> py_int d;
            if valid_date y mo da then Some ((y, mo, da), 0, 0, 0, 0) else None
          })"

text \<open>
  \<^verbatim>\<open>datetime.strptime(s, '%Y-%m-%dT%H:%M:%S.%f%z')\<close>. \<open>py_slice a b z\<close> is \<^verbatim>\<open>z[a:b]\<close>.
  \<open>gmtoff\<close> is the conversion of the \<^verbatim>\<open>%z\<close> group to an offset, as (seconds,
  microseconds); it raises ValueError on an inconsistent use of colons.
\<close>

definition match_iso ::
  "string \<Rightarrow>
   ((string \<times> string \<times> string \<times> string \<times> string \<times> string \<times> string \<times> string) \<times> string) list"
where
  "match_iso s =
     [((Y, m, d, H, M, S, f, z), r15).
        (Y, r1) \<leftarrow> rmatch re_Y s, (u1, r2) \<leftarrow> rmatch (Lit (CHR ''-'')) r1,
        (m, r3) \<leftarrow> rmatch re_m r2, (u2, r4) \<leftarrow> rmatch (Lit (CHR ''-'')) r3,
        (d, r5) \<leftarrow> rmatch re_d r4, (u3, r6) \<leftarrow> rmatch re_T r5,
        (H, r7) \<leftarrow> rmatch re_H r6, (u4, r8) \<leftarrow> rmatch (Lit (CHR '':'')) r7,
        (M, r9) \<leftarrow> rmatch re_M r8, (u5, r10) \<leftarrow> rmatch (Lit (CHR '':'')) r9,
        (S, r11) \<leftarrow> rmatch re_S r10, (u6, r12) \<leftarrow> rmatch (Lit (CHR ''.'')) r11,
        (f, r13) \<leftarrow> rmatch re_f r12, (z, r15) \<leftarrow> rmatch re_z r13]"

definition py_slice :: "nat \<Rightarrow> nat \<Rightarrow> string \<Rightarrow> string" where
  "py_slice a b z = take (b - a) (drop a z)"

definition gmtoff :: "string \<Rightarrow> (int \<times> int) option" where
  "gmtoff z0 =
     (if z0 = ''Z'' then Some (0, 0)
      else
        (case (if py_slice 3 4 z0 = '':''
               then (let z = take 3 z0 @ drop 4 z0
                     in if length z > 5
                        then (if py_slice 5 6 z \<noteq> '':'' then None
                              else Some (take 5 z @ drop 6 z))
                        else Some z)
               else Some z0) of
           None \<Rightarrow> None
         | Some z \<Rightarrow>
             (case (py_int (py_slice 1 3 z), py_int (py_slice 3 5 z),
                    (if py_slice 5 7 z = [] then Some 0 else py_int (py_slice 5 7 z)),
                    py_int (drop 8 z @ replicate (6 - length (drop 8 z)) (CHR ''0''))) of
                (Some hours, Some minutes, Some seconds, Some fraction) \<Rightarrow>
                  if startswith z ''-''
                  then Some (- (hours * 60 * 60 + minutes * 60 + seconds), - fraction)
                  else Some (hours * 60 * 60 + minutes * 60 + seconds, fraction)
              | other \<Rightarrow> None)))"

text \<open>
  The result is the datetime as written; its time zone is checked (an offset of 24 hours
  or more is a ValueError of the \<^verbatim>\<open>timezone\<close> constructor) and then left out, since the
  check reads only \<^verbatim>\<open>.date()\<close> of the result. The \<^verbatim>\<open>datetime\<close> constructor rejects
  the seconds 60 and 61 that the pattern allows.
\<close>

definition strptime_iso :: "string \<Rightarrow> datetime option" where
  "strptime_iso s =
     (case match_iso s of
        [] \<Rightarrow> None
      | ((Y, m, d, H, M, S, f, z), rest) # others \<Rightarrow>
          if rest \<noteq> [] then None
          else do {
            y \<leftarrow> py_int Y;
            mo \<leftarrow> py_int m;
            da \<leftarrow> py_int d;
            h \<leftarrow> py_int H;
            mi \<leftarrow> py_int M;
            se \<leftarrow> py_int S;
            us \<leftarrow> py_int (f @ replicate (6 - length f) (CHR ''0''));
            off \<leftarrow> gmtoff z;
            if valid_date y mo da
               \<and> - (86400 * 1000000) < fst off * 1000000 + snd off
               \<and> fst off * 1000000 + snd off < 86400 * 1000000
               \<and> se \<le> 59
            then Some ((y, mo, da), h, mi, se, us) else None
          })"

section \<open>The checks\<close>

text \<open>\<^verbatim>\<open>if cond: err_list.append(code)\<close>\<close>

definition append_if :: "bool \<Rightarrow> string \<Rightarrow> string list \<Rightarrow> string list" where
  "append_if cond code err_list = (if cond then err_list @ [code] else err_list)"

text \<open>
  \<^verbatim>\<open>__common_problem(issue, err_list)\<close>. \<open>now\<close> is the value that \<^verbatim>\<open>datetime.now()\<close>
  returns when the delay check calls it: the function takes no such argument, it reads
  the clock, at most once in an evaluation. A due date or a resolution date that
  \<^verbatim>\<open>strptime\<close> rejects raises ValueError, and \<^verbatim>\<open>issue.fields.security.name\<close> raises
  AttributeError when the security level is \<^verbatim>\<open>None\<close>.
\<close>

definition common_problem :: "datetime \<Rightarrow> Issue \<Rightarrow> string list \<Rightarrow> error + string list" where
  "common_problem now issue err_list =
     (case
        (case duedate (issue_fields issue) of
           None \<Rightarrow> Inr (err_list @ [''No DudeDate''])
         | Some s \<Rightarrow>
             (case strptime_Ymd s of
                None \<Rightarrow> Inl ValueError
              | Some due_date \<Rightarrow>
                  (case resolutiondate (issue_fields issue) of
                     None \<Rightarrow> Inr (append_if (datetime_gt now due_date) ''Delay'' err_list)
                   | Some r \<Rightarrow>
                       (case strptime_iso r of
                          None \<Rightarrow> Inl ValueError
                        | Some resolution \<Rightarrow>
                            Inr (append_if (date_gt (date_of resolution) (date_of due_date))
                                   ''Delay'' err_list)))))
      of
        Inl e \<Rightarrow> Inl e
      | Inr err_list \<Rightarrow>
          (let err_list = append_if (length (fixVersions (issue_fields issue)) = 0)
                            ''No FixVersions'' err_list;
               err_list = append_if (''chengdu'' \<notin> set (components (issue_fields issue)))
                            ''No Component Chengdu'' err_list;
               err_list = append_if (labels (issue_fields issue) = None)
                            ''No Labels'' err_list;
               err_list = append_if (customfield_11807 (issue_fields issue) = None)
                            ''No Implementer'' err_list
           in (case security (issue_fields issue) of
                 None \<Rightarrow> Inl AttributeError
               | Some security_name \<Rightarrow>
                   Inr (append_if (''Askey-Secure'' \<noteq> security_name)
                          ''No Askey-Secure'' err_list))))"

text \<open>The comments joined, each followed by a newline, in lower case.\<close>

definition comment_text :: "Issue \<Rightarrow> string" where
  "comment_text issue =
     lower (foldl (\<lambda>text body. text @ body @ [CHR 0x0A]) [] (comment (issue_fields issue)))"

text \<open>The story point rule that \<^verbatim>\<open>check_story\<close> and \<^verbatim>\<open>check_bug\<close> share.\<close>

definition story_points_problem :: "Issue \<Rightarrow> string list \<Rightarrow> string list" where
  "story_points_problem issue err_list =
     (case customfield_10408 (issue_fields issue) of
        None \<Rightarrow> err_list @ [''No StoryPoints''] @ [''No SubTask'']
      | Some points \<Rightarrow>
          append_if (points > 3 \<and> \<not> subtask (issuetype (issue_fields issue)))
            ''No SubTask'' err_list)"

definition check_story :: "datetime \<Rightarrow> Issue \<Rightarrow> error + string list" where
  "check_story now issue =
     (let text = comment_text issue;
          err_list = [];
          err_list = append_if (\<not> py_in ''[commitlink]'' text) ''No Code'' err_list;
          err_list = append_if (\<not> py_in ''[version]'' text \<or> \<not> py_in ''[steps]'' text
                                \<or> \<not> py_in ''[result]'' text) ''No Verification'' err_list;
          err_list = story_points_problem issue err_list
      in common_problem now issue err_list)"

definition check_bug :: "datetime \<Rightarrow> Issue \<Rightarrow> error + string list" where
  "check_bug now issue =
     (let text = comment_text issue;
          err_list = [];
          err_list = append_if (\<not> py_in ''[analyse]'' text) ''No Analyse'' err_list;
          err_list = append_if (\<not> py_in ''[solution]'' text) ''No Solution'' err_list;
          err_list = append_if (\<not> py_in ''[commitlink]'' text) ''No Code'' err_list;
          err_list = append_if (\<not> py_in ''[version]'' text \<or> \<not> py_in ''[steps]'' text
                                \<or> \<not> py_in ''[result]'' text) ''No Verification'' err_list;
          err_list = story_points_problem issue err_list
      in common_problem now issue err_list)"

definition check_review :: "datetime \<Rightarrow> Issue \<Rightarrow> error + string list" where
  "check_review now issue =
     (let err_list = [];
          err_list = append_if (customfield_10408 (issue_fields issue) = None)
                       ''No StoryPoints'' err_list
      in common_problem now issue err_list)"

text \<open>
  The type names of the dispatch. A story is named \<^verbatim>\<open>Story\<close> or, in Chinese, by the two
  characters U+6545 U+4E8B; a bug is named \<^verbatim>\<open>Bug\<close> or U+7F3A U+9677.
\<close>

definition name_gushi :: string where
  "name_gushi = [CHR 0xE6, CHR 0x95, CHR 0x85, CHR 0xE4, CHR 0xBA, CHR 0x8B]"

definition name_quexian :: string where
  "name_quexian = [CHR 0xE7, CHR 0xBC, CHR 0xBA, CHR 0xE9, CHR 0x99, CHR 0xB7]"

definition is_story :: "Issue \<Rightarrow> bool" where
  "is_story issue =
     (name (issuetype (issue_fields issue)) = ''Story''
      \<or> name (issuetype (issue_fields issue)) = name_gushi)"

definition is_bug :: "Issue \<Rightarrow> bool" where
  "is_bug issue =
     (name (issuetype (issue_fields issue)) = ''Bug''
      \<or> name (issuetype (issue_fields issue)) = name_quexian)"

definition is_review :: "Issue \<Rightarrow> bool" where
  "is_review issue = (name (issuetype (issue_fields issue)) = ''Review'')"

definition check_issue :: "datetime \<Rightarrow> Issue \<Rightarrow> error + string list" where
  "check_issue now issue =
     (if is_story issue then check_story now issue
      else if is_bug issue then check_bug now issue
      else if is_review issue then check_review now issue
      else Inr [])"

text \<open>
  \<^verbatim>\<open>get_project_problem(project)\<close>. The dictionary is an association list in insertion
  order; \<^verbatim>\<open>d[k] = v\<close> is \<open>AList.update\<close>. Every issue is checked at its own reading of
  the clock: \<open>clock n\<close> is the value of \<^verbatim>\<open>datetime.now()\<close> during the check of the issue
  at position \<open>n\<close>. An exception of a check ends the loop.
\<close>

fun problem_loop ::
  "(nat \<Rightarrow> datetime) \<Rightarrow> nat \<Rightarrow> Issue list \<Rightarrow> (string \<times> string list) list
   \<Rightarrow> error + (string \<times> string list) list"
where
  "problem_loop clock n [] unqualified_issue_dict = Inr unqualified_issue_dict"
| "problem_loop clock n (issue # rest) unqualified_issue_dict =
     (case check_issue (clock n) issue of
        Inl e \<Rightarrow> Inl e
      | Inr unqualified_issue \<Rightarrow>
          problem_loop clock (Suc n) rest
            (if length unqualified_issue \<noteq> 0
             then AList.update (key issue) unqualified_issue unqualified_issue_dict
             else unqualified_issue_dict))"

definition get_project_problem ::
  "(nat \<Rightarrow> datetime) \<Rightarrow> JiraProject \<Rightarrow> error + (string \<times> string list) list" where
  "get_project_problem clock project = problem_loop clock 0 (issues project) []"

section \<open>Derived notions and example issues\<close>

text \<open>An issue whose type has a check: a story, a bug or a review.\<close>

definition is_typed :: "Issue \<Rightarrow> bool" where
  "is_typed issue = (is_story issue \<or> is_bug issue \<or> is_review issue)"

text \<open>
  The list that \<^verbatim>\<open>check_story\<close>, \<^verbatim>\<open>check_bug\<close> and \<^verbatim>\<open>check_review\<close> have collected when
  they call \<^verbatim>\<open>__common_problem\<close>.
\<close>

definition type_problem :: "Issue \<Rightarrow> string list" where
  "type_problem issue =
     (let text = comment_text issue;
          verification = append_if (\<not> py_in ''[version]'' text \<or> \<not> py_in ''[steps]'' text
                                \<or> \<not> py_in ''[result]'' text) ''No Verification''
      in if is_story issue
         then story_points_problem issue (verification
                (append_if (\<not> py_in ''[commitlink]'' text) ''No Code'' []))
         else if is_bug issue
         then story_points_problem issue (verification
                (append_if (\<not> py_in ''[commitlink]'' text) ''No Code''
                (append_if (\<not> py_in ''[solution]'' text) ''No Solution''
                (append_if (\<not> py_in ''[analyse]'' text) ''No Analyse'' []))))
         else append_if (customfield_10408 (issue_fields issue) = None) ''No StoryPoints'' [])"

text \<open>Two readings of the clock, and a third between them.\<close>

definition clock_jan05 :: datetime where
  "clock_jan05 = ((2024, 1, 5), 9, 0, 0, 0)"

definition clock_jan15 :: datetime where
  "clock_jan15 = ((2024, 1, 15), 10, 30, 0, 0)"

definition clock_jan20 :: datetime where
  "clock_jan20 = ((2024, 1, 20), 9, 0, 0, 0)"

text \<open>The story AL-1 of the end-to-end scenario, and variants of it in one field.\<close>

definition AL1 :: Issue where
  "AL1 = \<lparr>key = ''AL-1'',
           issue_fields = \<lparr>issuetype = \<lparr>name = ''Story'', subtask = False\<rparr>,
             duedate = None, resolutiondate = None, fixVersions = [],
             components = [''other''], labels = None, customfield_11807 = None,
             security = Some ''Askey-Secure'', customfield_10408 = Some 5,
             comment = []\<rparr>\<rparr>"

definition AL1_bad_duedate :: Issue where
  "AL1_bad_duedate = AL1\<lparr>issue_fields := (issue_fields AL1)\<lparr>duedate := Some ''2024/01/05''\<rparr>\<rparr>"

definition AL1_no_security :: Issue where
  "AL1_no_security = AL1\<lparr>issue_fields := (issue_fields AL1)\<lparr>security := None\<rparr>\<rparr>"

definition AL1_no_points :: Issue where
  "AL1_no_points = AL1\<lparr>issue_fields := (issue_fields AL1)\<lparr>customfield_10408 := None\<rparr>\<rparr>"

definition AL1_empty_labels :: Issue where
  "AL1_empty_labels = AL1\<lparr>issue_fields := (issue_fields AL1)\<lparr>labels := Some []\<rparr>\<rparr>"

definition AL1_task :: Issue where
  "AL1_task =
     AL1\<lparr>issue_fields := (issue_fields AL1)\<lparr>issuetype := \<lparr>name = ''Task'', subtask = False\<rparr>\<rparr>\<rparr>"

text \<open>A review that is complete and due on 10 January 2024, not resolved.\<close>

definition AL2 :: Issue where
  "AL2 = \<lparr>key = ''AL-2'',
           issue_fields = \<lparr>issuetype = \<lparr>name = ''Review'', subtask = False\<rparr>,
             duedate = Some ''2024-01-10'', resolutiondate = None, fixVersions = [''1.0''],
             components = [''chengdu''], labels = Some [], customfield_11807 = Some ''alice'',
             security = Some ''Askey-Secure'', customfield_10408 = Some 2,
             comment = []\<rparr>\<rparr>"

text \<open>A bug of exactly three story points, with all markers in its comment.\<close>

definition AL3 :: Issue where
  "AL3 = \<lparr>key = ''AL-3'',
           issue_fields = \<lparr>issuetype = \<lparr>name = ''Bug'', subtask = False\<rparr>,
             duedate = None, resolutiondate = None, fixVersions = [''1.0''],
             components = [''chengdu''], labels = Some [''x''], customfield_11807 = Some ''bob'',
             security = Some ''Askey-Secure'', customfield_10408 = Some 3,
             comment = [''[Analyse] a [Solution] b'', ''[CommitLink] c [Version] 1 [Steps] s [Result] ok'']\<rparr>\<rparr>"

definition Alpha :: JiraProject where
  "Alpha = \<lparr>project_name = ''Alpha'', project_key = ''AL'', issues = [AL2, AL1],
             project_manager = ''carol'', manager_phone = ''0''\<rparr>"

definition Empty_Project :: JiraProject where
  "Empty_Project = \<lparr>project_name = ''Empty'', project_key = ''EM'', issues = [],
             project_manager = ''carol'', manager_phone = ''0''\<rparr>"

lemmas check_defs = check_issue_def is_story_def is_bug_def is_review_def check_story_def
  check_bug_def check_review_def story_points_problem_def comment_text_def common_problem_def
  append_if_def name_gushi_def name_quexian_def lower_def

lemmas example_defs = AL1_def AL1_bad_duedate_def AL1_no_security_def AL1_no_points_def
  AL1_empty_labels_def AL1_task_def AL2_def AL3_def clock_jan05_def clock_jan15_def
  clock_jan20_def

section \<open>Evaluation of the examples\<close>

lemma strptime_Ymd_jan10: "strptime_Ymd ''2024-01-10'' = Some ((2024, 1, 10), 0, 0, 0, 0)"
  by code_simp

lemma strptime_Ymd_slashes: "strptime_Ymd ''2024/01/05'' = None"
  by code_simp

lemma is_ascii_slashes: "is_ascii ''2024/01/05''"
  by (simp add: is_ascii_def)

lemma check_AL1:
  "check_issue now AL1 = Inr [''No Code'', ''No Verification'', ''No SubTask'', ''No DudeDate'',
     ''No FixVersions'', ''No Component Chengdu'', ''No Labels'', ''No Implementer'']"
  by (simp add: example_defs check_defs)

lemma check_AL1_no_points:
  "check_issue now AL1_no_points = Inr [''No Code'', ''No Verification'', ''No StoryPoints'',
     ''No SubTask'', ''No DudeDate'', ''No FixVersions'', ''No Component Chengdu'', ''No Labels'',
     ''No Implementer'']"
  by (simp add: example_defs check_defs)

lemma check_AL1_empty_labels:
  "check_issue now AL1_empty_labels = Inr [''No Code'', ''No Verification'', ''No SubTask'',
     ''No DudeDate'', ''No FixVersions'', ''No Component Chengdu'', ''No Implementer'']"
  by (simp add: example_defs check_defs)

lemma check_AL2_jan05: "check_issue clock_jan05 AL2 = Inr []"
  by (simp add: example_defs check_defs strptime_Ymd_jan10)

lemma check_AL3:
  "check_issue now AL3 = Inr [''No DudeDate'']"
  by code_simp

section \<open>Properties of the checks\<close>

lemma set_append_if: "set (append_if c x l) = (if c then insert x (set l) else set l)"
  by (simp add: append_if_def)

lemma distinct_append_if:
  "distinct (append_if c x l) = (distinct l \<and> (c \<longrightarrow> x \<notin> set l))"
  by (auto simp: append_if_def)

subsection \<open>The common checks\<close>

lemma common_problem_labels:
  "common_problem now i l = Inr r \<Longrightarrow>
   (''No Labels'' \<in> set r) = (''No Labels'' \<in> set l \<or> labels (issue_fields i) = None)"
  by (auto simp: common_problem_def Let_def set_append_if
      split: option.splits sum.splits if_splits)

lemma common_problem_security:
  "common_problem now i l = Inr r \<Longrightarrow>
   (''No Askey-Secure'' \<in> set r) =
     (''No Askey-Secure'' \<in> set l \<or> security (issue_fields i) \<noteq> Some ''Askey-Secure'')"
  by (auto simp: common_problem_def Let_def set_append_if
      split: option.splits sum.splits if_splits)

lemma common_problem_other:
  "common_problem now i l = Inr r \<Longrightarrow>
   c \<notin> {''No DudeDate'', ''Delay'', ''No FixVersions'', ''No Component Chengdu'',
     ''No Labels'', ''No Implementer'', ''No Askey-Secure''} \<Longrightarrow>
   (c \<in> set r) = (c \<in> set l)"
  by (auto simp: common_problem_def Let_def set_append_if
      split: option.splits sum.splits if_splits)

lemma common_problem_no_duedate:
  "duedate (issue_fields i) = None \<Longrightarrow> common_problem now i l = Inr r \<Longrightarrow>
   ''No DudeDate'' \<in> set r \<and> (''Delay'' \<in> set r) = (''Delay'' \<in> set l)"
  by (auto simp: common_problem_def Let_def set_append_if
      split: option.splits sum.splits if_splits)

lemma common_problem_no_duedate_raises:
  "duedate (issue_fields i) = None \<Longrightarrow> common_problem now i l = Inl e \<Longrightarrow>
   e = AttributeError \<and> security (issue_fields i) = None"
  by (auto simp: common_problem_def Let_def split: option.splits sum.splits if_splits)

lemma common_problem_raises:
  "common_problem now i l = Inl e \<Longrightarrow>
   (e = ValueError \<and> (\<exists>s. duedate (issue_fields i) = Some s))
   \<or> (e = AttributeError \<and> security (issue_fields i) = None)"
  by (auto simp: common_problem_def Let_def split: option.splits sum.splits if_splits)

lemma common_problem_bad_duedate:
  "duedate (issue_fields i) = Some s \<Longrightarrow> strptime_Ymd s = None \<Longrightarrow>
   common_problem now i l = Inl ValueError"
  by (simp add: common_problem_def)

lemma common_problem_clock:
  "duedate (issue_fields i) = None \<or> resolutiondate (issue_fields i) \<noteq> None \<Longrightarrow>
   common_problem now1 i l = common_problem now2 i l"
  by (auto simp: common_problem_def split: option.splits)

lemma common_problem_distinct:
  "common_problem now i l = Inr r \<Longrightarrow> distinct l \<Longrightarrow>
   set l \<inter> {''No DudeDate'', ''Delay'', ''No FixVersions'', ''No Component Chengdu'',
     ''No Labels'', ''No Implementer'', ''No Askey-Secure''} = {} \<Longrightarrow> distinct r"
  by (auto simp: common_problem_def Let_def set_append_if distinct_append_if
      split: option.splits sum.splits if_splits)

subsection \<open>The checks by type\<close>

lemma check_issue_typed:
  "is_typed i \<Longrightarrow> check_issue now i = common_problem now i (type_problem i)"
  by (auto simp: is_typed_def check_issue_def check_story_def check_bug_def check_review_def
      type_problem_def Let_def)

lemma check_issue_untyped: "\<not> is_typed i \<Longrightarrow> check_issue now i = Inr []"
  by (simp add: is_typed_def check_issue_def)

lemma set_story_points_problem:
  "set (story_points_problem i l) = set l \<union>
     (case customfield_10408 (issue_fields i) of
        None \<Rightarrow> {''No StoryPoints'', ''No SubTask''}
      | Some p \<Rightarrow>
          if p > 3 \<and> \<not> subtask (issuetype (issue_fields i)) then {''No SubTask''} else {})"
  by (auto simp: story_points_problem_def set_append_if split: option.splits)

lemma distinct_story_points_problem:
  "distinct l \<Longrightarrow> ''No StoryPoints'' \<notin> set l \<Longrightarrow> ''No SubTask'' \<notin> set l \<Longrightarrow>
   distinct (story_points_problem i l)"
  by (auto simp: story_points_problem_def distinct_append_if split: option.splits)

lemma type_problem_distinct: "distinct (type_problem i)"
  by (simp add: type_problem_def Let_def distinct_story_points_problem distinct_append_if
      set_append_if)

lemma type_problem_codes:
  "set (type_problem i) \<subseteq> {''No Analyse'', ''No Solution'', ''No Code'', ''No Verification'',
     ''No StoryPoints'', ''No SubTask''}"
  by (auto simp: type_problem_def Let_def set_story_points_problem set_append_if
      split: option.splits if_splits)

lemma type_problem_story_points:
  "is_story i \<or> is_bug i \<Longrightarrow>
   (''No StoryPoints'' \<in> set (type_problem i)) = (customfield_10408 (issue_fields i) = None)"
  by (auto simp: type_problem_def Let_def set_story_points_problem set_append_if
      split: option.splits if_splits)

lemma type_problem_subtask:
  "is_story i \<or> is_bug i \<Longrightarrow>
   (''No SubTask'' \<in> set (type_problem i)) =
     (case customfield_10408 (issue_fields i) of
        None \<Rightarrow> True
      | Some p \<Rightarrow> p > 3 \<and> \<not> subtask (issuetype (issue_fields i)))"
  by (auto simp: type_problem_def Let_def set_story_points_problem set_append_if
      split: option.splits if_splits)

lemma type_problem_not_common:
  "c \<in> {''No DudeDate'', ''Delay'', ''No FixVersions'', ''No Component Chengdu'',
     ''No Labels'', ''No Implementer'', ''No Askey-Secure''} \<Longrightarrow> c \<notin> set (type_problem i)"
  using type_problem_codes [of i] by auto

subsection \<open>The loop over a project\<close>

lemma set_update_subset: "set (AList.update k v al) \<subseteq> insert (k, v) (set al)"
  by (induction al) auto

lemma problem_loop_no_empty:
  "problem_loop clock n xs d0 = Inr d \<Longrightarrow> [] \<notin> snd ` set d0 \<Longrightarrow> [] \<notin> snd ` set d"
proof (induction xs arbitrary: n d0)
  case Nil
  then show ?case by simp
next
  case (Cons x xs)
  from Cons.prems(1) obtain u where u: "check_issue (clock n) x = Inr u"
    by (auto split: sum.splits)
  let ?d1 = "if length u \<noteq> 0 then AList.update (key x) u d0 else d0"
  from Cons.prems(1) u have loop: "problem_loop clock (Suc n) xs ?d1 = Inr d"
    by simp
  have "[] \<notin> snd ` set ?d1"
  proof (cases "u = []")
    case True
    with Cons.prems(2) show ?thesis by simp
  next
    case False
    have "snd ` set (AList.update (key x) u d0) \<subseteq> insert u (snd ` set d0)"
      using set_update_subset [of "key x" u d0] by auto
    with False Cons.prems(2) show ?thesis by auto
  qed
  with loop show ?case by (rule Cons.IH)
qed

lemma problem_loop_keys:
  "problem_loop clock n xs d0 = Inr d \<Longrightarrow>
   fst ` set d = fst ` set d0 \<union>
     {key (xs ! m) | m. m < length xs \<and>
        (\<exists>v. check_issue (clock (n + m)) (xs ! m) = Inr v \<and> v \<noteq> [])}"
proof (induction xs arbitrary: n d0)
  case Nil
  then show ?case by simp
next
  case (Cons x xs)
  from Cons.prems(1) obtain u where u: "check_issue (clock n) x = Inr u"
    by (auto split: sum.splits)
  let ?d1 = "if length u \<noteq> 0 then AList.update (key x) u d0 else d0"
  let ?K = "\<lambda>n xs. {key (xs ! m) | m. m < length xs \<and>
        (\<exists>v. check_issue (clock (n + m)) (xs ! m) = Inr v \<and> v \<noteq> [])}"
  from Cons.prems(1) u have loop: "problem_loop clock (Suc n) xs ?d1 = Inr d"
    by simp
  have IH: "fst ` set d = fst ` set ?d1 \<union> ?K (Suc n) xs"
    using loop by (rule Cons.IH)
  have d1: "fst ` set ?d1 = fst ` set d0 \<union> (if u \<noteq> [] then {key x} else {})"
    by (auto simp: dom_update)
  have K: "?K n (x # xs) = (if u \<noteq> [] then {key x} else {}) \<union> ?K (Suc n) xs"
  proof (rule set_eqI)
    fix k
    show "k \<in> ?K n (x # xs) \<longleftrightarrow> k \<in> (if u \<noteq> [] then {key x} else {}) \<union> ?K (Suc n) xs"
    proof
      assume "k \<in> ?K n (x # xs)"
      then obtain m v where m: "m < length (x # xs)" "k = key ((x # xs) ! m)"
        "check_issue (clock (n + m)) ((x # xs) ! m) = Inr v" "v \<noteq> []"
        by auto
      show "k \<in> (if u \<noteq> [] then {key x} else {}) \<union> ?K (Suc n) xs"
      proof (cases m)
        case 0
        with m u show ?thesis by auto
      next
        case (Suc m')
        with m have "m' < length xs" "k = key (xs ! m')"
          "check_issue (clock (Suc n + m')) (xs ! m') = Inr v" "v \<noteq> []"
          by auto
        then have "k \<in> ?K (Suc n) xs" by blast
        then show ?thesis by simp
      qed
    next
      assume "k \<in> (if u \<noteq> [] then {key x} else {}) \<union> ?K (Suc n) xs"
      then consider "u \<noteq> []" "k = key x" | "k \<in> ?K (Suc n) xs"
        by (auto split: if_splits)
      then show "k \<in> ?K n (x # xs)"
      proof cases
        case 1
        then have "0 < length (x # xs)" "k = key ((x # xs) ! 0)"
          "check_issue (clock (n + 0)) ((x # xs) ! 0) = Inr u" "u \<noteq> []"
          using u by auto
        then show ?thesis by blast
      next
        case 2
        then obtain m v where m: "m < length xs" "k = key (xs ! m)"
          "check_issue (clock (Suc n + m)) (xs ! m) = Inr v" "v \<noteq> []"
          by auto
        then have "Suc m < length (x # xs)" "k = key ((x # xs) ! Suc m)"
          "check_issue (clock (n + Suc m)) ((x # xs) ! Suc m) = Inr v" "v \<noteq> []"
          by auto
        then show ?thesis by blast
      qed
    qed
  qed
  from IH d1 K show ?case by auto
qed

section \<open>The claims\<close>

text \<open>
  C1 (as amended). The story AL-1 of the end-to-end scenario has five story points, so
  the story point field is present: the check returns, at every reading of the clock,
  the list No Code, No Verification, No SubTask, No DudeDate, No FixVersions,
  No Component Chengdu, No Labels, No Implementer, in this order. The codes of the
  common checks come after those of the story check, No Askey-Secure is absent, and so
  is No StoryPoints.
\<close>

theorem check_issue_scenario:
  "check_issue now AL1 =
     Inr [''No Code'', ''No Verification'', ''No SubTask'', ''No DudeDate'', ''No FixVersions'',
          ''No Component Chengdu'', ''No Labels'', ''No Implementer'']"
  by (simp add: example_defs check_defs)

text \<open>
  C1 as stated fails: the list of the scenario holds No StoryPoints, which the check
  appends only when the story point field is \<^verbatim>\<open>None\<close>.
\<close>

theorem check_issue_scenario_counterexample:
  "check_issue clock_jan15 AL1 \<noteq>
     Inr [''No Code'', ''No Verification'', ''No StoryPoints'', ''No SubTask'', ''No DudeDate'',
          ''No FixVersions'', ''No Component Chengdu'', ''No Labels'', ''No Implementer'']"
  by (simp add: example_defs check_defs)

text \<open>
  C2 (as amended). For a story, a bug or a review whose due date is an ASCII text that
  \<^verbatim>\<open>strptime\<close> rejects for the format \<^verbatim>\<open>%Y-%m-%d\<close>, the evaluation raises ValueError: no
  violation list is returned, and the text is not taken as an absent due date.
\<close>

theorem check_issue_unparsable_duedate:
  "is_typed i \<Longrightarrow> duedate (issue_fields i) = Some s \<Longrightarrow> is_ascii s \<Longrightarrow>
   strptime_Ymd s = None \<Longrightarrow> check_issue now i = Inl ValueError"
  by (simp add: check_issue_typed common_problem_bad_duedate)

theorem check_issue_unparsable_duedate_witness:
  "is_typed AL1_bad_duedate \<and> duedate (issue_fields AL1_bad_duedate) = Some ''2024/01/05''
   \<and> is_ascii ''2024/01/05'' \<and> strptime_Ymd ''2024/01/05'' = None
   \<and> check_issue clock_jan15 AL1_bad_duedate = Inl ValueError"
proof -
  have typed: "is_typed AL1_bad_duedate"
    by (simp add: is_typed_def is_story_def example_defs)
  have due: "duedate (issue_fields AL1_bad_duedate) = Some ''2024/01/05''"
    by (simp add: example_defs)
  show ?thesis
    using check_issue_unparsable_duedate
        [OF typed due is_ascii_slashes strptime_Ymd_slashes, of clock_jan15]
      typed due is_ascii_slashes strptime_Ymd_slashes
    by simp
qed

text \<open>
  C2 as stated fails: with the due date \<^verbatim>\<open>2024/01/05\<close>, which is not a date of the format,
  the evaluation of the story raises ValueError instead of returning a list with
  No DudeDate.
\<close>

theorem check_issue_unparsable_duedate_counterexample:
  "strptime_Ymd ''2024/01/05'' = None
   \<and> check_issue clock_jan15 AL1_bad_duedate = Inl ValueError"
  by (simp add: example_defs check_defs strptime_Ymd_slashes)

text \<open>
  C3. An issue whose type is none of story (named \<^verbatim>\<open>Story\<close> or by its Chinese name), bug
  (named \<^verbatim>\<open>Bug\<close> or by its Chinese name) and review gets no check: the violation list
  is empty.
\<close>

theorem check_issue_other_type:
  "name (issuetype (issue_fields i)) \<notin> {''Story'', name_gushi, ''Bug'', name_quexian, ''Review''}
   \<Longrightarrow> check_issue now i = Inr []"
  by (simp add: check_issue_def is_story_def is_bug_def is_review_def)

theorem check_issue_other_type_witness:
  "name (issuetype (issue_fields AL1_task))
     \<notin> {''Story'', name_gushi, ''Bug'', name_quexian, ''Review''}
   \<and> check_issue clock_jan15 AL1_task = Inr []"
proof -
  have other: "name (issuetype (issue_fields AL1_task))
      \<notin> {''Story'', name_gushi, ''Bug'', name_quexian, ''Review''}"
    by (simp add: example_defs name_gushi_def name_quexian_def)
  show ?thesis
    using check_issue_other_type [OF other, of clock_jan15] other by simp
qed

text \<open>
  C4. The claim is that an absent security level is a mismatch and yields
  No Askey-Secure. The check reads \<^verbatim>\<open>issue.fields.security.name\<close> without a test for
  \<^verbatim>\<open>None\<close>, unlike the checks of the labels and of the implementer next to it: on the
  story AL-1 without a security level the evaluation raises AttributeError.
\<close>

theorem check_issue_security_absent:
  "check_issue clock_jan15 AL1_no_security = Inl AttributeError"
  by (simp add: example_defs check_defs)

text \<open>
  C5 (as amended). The delay check reads the clock itself; no time is passed in. The
  result does not depend on the reading when the issue has no due date or has a
  resolution date: two evaluations of such an issue give the same result, with the
  codes in the same order, whatever the clock shows.
\<close>

theorem check_issue_clock_independent:
  "duedate (issue_fields i) = None \<or> resolutiondate (issue_fields i) \<noteq> None \<Longrightarrow>
   check_issue now1 i = check_issue now2 i"
proof (cases "is_typed i")
  case True
  assume "duedate (issue_fields i) = None \<or> resolutiondate (issue_fields i) \<noteq> None"
  then have "common_problem now1 i (type_problem i) = common_problem now2 i (type_problem i)"
    by (rule common_problem_clock)
  with True show ?thesis by (simp add: check_issue_typed)
next
  case False
  then show ?thesis by (simp add: check_issue_untyped)
qed

theorem check_issue_clock_independent_witness:
  "(duedate (issue_fields AL1) = None \<or> resolutiondate (issue_fields AL1) \<noteq> None)
   \<and> check_issue clock_jan05 AL1 = check_issue clock_jan20 AL1"
proof -
  have h: "duedate (issue_fields AL1) = None \<or> resolutiondate (issue_fields AL1) \<noteq> None"
    by (simp add: example_defs)
  show ?thesis
    using check_issue_clock_independent [OF h, of clock_jan05 clock_jan20] h by simp
qed

text \<open>
  C5 as stated fails: the review AL-2, due on 10 January 2024 and not resolved, has no
  violation when the clock shows 5 January and the violation Delay when it shows
  20 January. The same record gives two lists.
\<close>

theorem check_issue_clock_counterexample:
  "check_issue clock_jan05 AL2 = Inr [] \<and> check_issue clock_jan20 AL2 = Inr [''Delay'']"
  by (simp add: example_defs check_defs strptime_Ymd_jan10)


text \<open>
  C6. The evaluation of a story or a bug returns a list with these properties: when the
  story points are absent the list holds both No StoryPoints and No SubTask; when they
  are present, greater than 3, and the issue is not a subtask, the list holds No SubTask
  and not No StoryPoints; when they are exactly 3 the list never holds No SubTask,
  whatever the subtask flag is. The only other outcomes are the ValueError of a date
  that \<^verbatim>\<open>strptime\<close> rejects, which needs a due date, and the AttributeError of an absent
  security level.
\<close>

theorem check_issue_story_points:
  "is_story i \<or> is_bug i \<Longrightarrow>
   (case check_issue now i of
      Inr errs \<Rightarrow>
        (customfield_10408 (issue_fields i) = None \<longrightarrow>
           ''No StoryPoints'' \<in> set errs \<and> ''No SubTask'' \<in> set errs)
        \<and> (\<forall>p. customfield_10408 (issue_fields i) = Some p \<and> p > 3
                 \<and> \<not> subtask (issuetype (issue_fields i)) \<longrightarrow>
               ''No SubTask'' \<in> set errs \<and> ''No StoryPoints'' \<notin> set errs)
        \<and> (customfield_10408 (issue_fields i) = Some 3 \<longrightarrow> ''No SubTask'' \<notin> set errs)
    | Inl e \<Rightarrow>
        (e = ValueError \<and> (\<exists>s. duedate (issue_fields i) = Some s))
        \<or> (e = AttributeError \<and> security (issue_fields i) = None))"
proof -
  assume sb: "is_story i \<or> is_bug i"
  then have "is_typed i" by (auto simp: is_typed_def)
  then have eq: "check_issue now i = common_problem now i (type_problem i)"
    by (rule check_issue_typed)
  show ?thesis
  proof (cases "check_issue now i")
    case (Inl e)
    with eq have "common_problem now i (type_problem i) = Inl e" by simp
    from common_problem_raises [OF this] Inl show ?thesis by simp
  next
    case (Inr errs)
    with eq have cp: "common_problem now i (type_problem i) = Inr errs" by simp
    have sp: "(''No StoryPoints'' \<in> set errs) = (customfield_10408 (issue_fields i) = None)"
      using common_problem_other [OF cp, of "''No StoryPoints''"]
        type_problem_story_points [OF sb]
      by simp
    have st: "(''No SubTask'' \<in> set errs) =
       (case customfield_10408 (issue_fields i) of
          None \<Rightarrow> True
        | Some p \<Rightarrow> p > 3 \<and> \<not> subtask (issuetype (issue_fields i)))"
      using common_problem_other [OF cp, of "''No SubTask''"] type_problem_subtask [OF sb]
      by simp
    from Inr show ?thesis
      by (auto simp: sp st)
  qed
qed

theorem check_issue_story_points_witness:
  "(is_story AL1_no_points \<or> is_bug AL1_no_points)
   \<and> customfield_10408 (issue_fields AL1_no_points) = None
   \<and> check_issue clock_jan15 AL1_no_points =
       Inr [''No Code'', ''No Verification'', ''No StoryPoints'', ''No SubTask'', ''No DudeDate'',
            ''No FixVersions'', ''No Component Chengdu'', ''No Labels'', ''No Implementer'']
   \<and> ''No StoryPoints'' \<in> set [''No Code'', ''No Verification'', ''No StoryPoints'',
        ''No SubTask'', ''No DudeDate'', ''No FixVersions'', ''No Component Chengdu'',
        ''No Labels'', ''No Implementer'']
   \<and> ''No SubTask'' \<in> set [''No Code'', ''No Verification'', ''No StoryPoints'',
        ''No SubTask'', ''No DudeDate'', ''No FixVersions'', ''No Component Chengdu'',
        ''No Labels'', ''No Implementer'']
   \<and> (is_story AL1 \<or> is_bug AL1)
   \<and> customfield_10408 (issue_fields AL1) = Some 5 \<and> (5 :: rat) > 3
   \<and> \<not> subtask (issuetype (issue_fields AL1))
   \<and> check_issue clock_jan15 AL1 =
       Inr [''No Code'', ''No Verification'', ''No SubTask'', ''No DudeDate'',
            ''No FixVersions'', ''No Component Chengdu'', ''No Labels'', ''No Implementer'']
   \<and> ''No SubTask'' \<in> set [''No Code'', ''No Verification'', ''No SubTask'', ''No DudeDate'',
        ''No FixVersions'', ''No Component Chengdu'', ''No Labels'', ''No Implementer'']
   \<and> ''No StoryPoints'' \<notin> set [''No Code'', ''No Verification'', ''No SubTask'',
        ''No DudeDate'', ''No FixVersions'', ''No Component Chengdu'', ''No Labels'',
        ''No Implementer'']
   \<and> (is_story AL3 \<or> is_bug AL3)
   \<and> customfield_10408 (issue_fields AL3) = Some 3
   \<and> check_issue clock_jan15 AL3 = Inr [''No DudeDate'']
   \<and> ''No SubTask'' \<notin> set [''No DudeDate'']"
proof -
  have t1: "is_story AL1_no_points \<or> is_bug AL1_no_points"
    and t2: "is_story AL1 \<or> is_bug AL1"
    and t3: "is_story AL3 \<or> is_bug AL3"
    by (simp_all add: is_story_def is_bug_def example_defs)
  have f: "customfield_10408 (issue_fields AL1_no_points) = None"
    "customfield_10408 (issue_fields AL1) = Some 5"
    "\<not> subtask (issuetype (issue_fields AL1))"
    "customfield_10408 (issue_fields AL3) = Some 3"
    by (simp_all add: example_defs)
  show ?thesis
    using check_issue_story_points [OF t1, of clock_jan15]
      check_issue_story_points [OF t2, of clock_jan15]
      check_issue_story_points [OF t3, of clock_jan15]
      check_AL1_no_points [of clock_jan15] check_AL1 [of clock_jan15]
      check_AL3 [of clock_jan15] t1 t2 t3 f
    by simp
qed

text \<open>
  C7. For a story, a bug or a review without a due date, the violation list holds
  No DudeDate and never Delay: the delay check is not run. The evaluation of such an
  issue returns a list unless the security level is absent, where the read of its name
  raises AttributeError.
\<close>

theorem check_issue_no_duedate:
  "is_typed i \<Longrightarrow> duedate (issue_fields i) = None \<Longrightarrow>
   (case check_issue now i of
      Inr errs \<Rightarrow> ''No DudeDate'' \<in> set errs \<and> ''Delay'' \<notin> set errs
    | Inl e \<Rightarrow> e = AttributeError \<and> security (issue_fields i) = None)"
proof -
  assume typed: "is_typed i" and due: "duedate (issue_fields i) = None"
  have eq: "check_issue now i = common_problem now i (type_problem i)"
    using typed by (rule check_issue_typed)
  show ?thesis
  proof (cases "check_issue now i")
    case (Inl e)
    with eq have "common_problem now i (type_problem i) = Inl e" by simp
    from common_problem_no_duedate_raises [OF due this] Inl show ?thesis by simp
  next
    case (Inr errs)
    with eq have "common_problem now i (type_problem i) = Inr errs" by simp
    from common_problem_no_duedate [OF due this] type_problem_not_common [of "''Delay''" i] Inr
    show ?thesis by simp
  qed
qed

theorem check_issue_no_duedate_witness:
  "is_typed AL1_no_points \<and> duedate (issue_fields AL1_no_points) = None
   \<and> check_issue clock_jan20 AL1_no_points =
       Inr [''No Code'', ''No Verification'', ''No StoryPoints'', ''No SubTask'', ''No DudeDate'',
            ''No FixVersions'', ''No Component Chengdu'', ''No Labels'', ''No Implementer'']
   \<and> ''No DudeDate'' \<in> set [''No Code'', ''No Verification'', ''No StoryPoints'', ''No SubTask'',
        ''No DudeDate'', ''No FixVersions'', ''No Component Chengdu'', ''No Labels'',
        ''No Implementer'']
   \<and> ''Delay'' \<notin> set [''No Code'', ''No Verification'', ''No StoryPoints'', ''No SubTask'',
        ''No DudeDate'', ''No FixVersions'', ''No Component Chengdu'', ''No Labels'',
        ''No Implementer'']"
proof -
  have typed: "is_typed AL1_no_points"
    by (simp add: is_typed_def is_story_def example_defs)
  have due: "duedate (issue_fields AL1_no_points) = None"
    by (simp add: example_defs)
  show ?thesis
    using check_issue_no_duedate [OF typed due, of clock_jan20] typed due
      check_AL1_no_points [of clock_jan20]
    by simp
qed

text \<open>
  C8. The index that \<^verbatim>\<open>get_project_problem\<close> returns never maps a key to an empty list;
  its keys are exactly the keys of the issues whose evaluation gave at least one
  violation, so an issue without violation is not entered; and for a project without
  issues the index is empty.
\<close>

theorem get_project_problem_index:
  "get_project_problem clock project = Inr d \<Longrightarrow>
   [] \<notin> snd ` set d
   \<and> fst ` set d =
       {key (issues project ! m) | m. m < length (issues project) \<and>
          (\<exists>v. check_issue (clock m) (issues project ! m) = Inr v \<and> v \<noteq> [])}
   \<and> (issues project = [] \<longrightarrow> d = [])"
proof -
  assume res: "get_project_problem clock project = Inr d"
  then have loop: "problem_loop clock 0 (issues project) [] = Inr d"
    by (simp add: get_project_problem_def)
  have "[] \<notin> snd ` set d"
    using loop by (rule problem_loop_no_empty) simp
  moreover have "fst ` set d =
       {key (issues project ! m) | m. m < length (issues project) \<and>
          (\<exists>v. check_issue (clock m) (issues project ! m) = Inr v \<and> v \<noteq> [])}"
    using problem_loop_keys [OF loop] by simp
  moreover have "issues project = [] \<longrightarrow> d = []"
    using loop by auto
  ultimately show ?thesis by simp
qed

theorem get_project_problem_index_witness:
  "get_project_problem (\<lambda>n. clock_jan05) Alpha =
     Inr [(''AL-1'', [''No Code'', ''No Verification'', ''No SubTask'', ''No DudeDate'',
        ''No FixVersions'', ''No Component Chengdu'', ''No Labels'', ''No Implementer''])]
   \<and> [] \<notin> snd ` set [(''AL-1'', [''No Code'', ''No Verification'', ''No SubTask'',
        ''No DudeDate'', ''No FixVersions'', ''No Component Chengdu'', ''No Labels'',
        ''No Implementer''])]
   \<and> get_project_problem (\<lambda>n. clock_jan05) Empty_Project = Inr []
   \<and> issues Empty_Project = []"
proof -
  have a: "get_project_problem (\<lambda>n. clock_jan05) Alpha =
     Inr [(''AL-1'', [''No Code'', ''No Verification'', ''No SubTask'', ''No DudeDate'',
        ''No FixVersions'', ''No Component Chengdu'', ''No Labels'', ''No Implementer''])]"
    by (simp add: get_project_problem_def Alpha_def check_AL1 check_AL2_jan05)
      (simp add: AL1_def)
  have e: "get_project_problem (\<lambda>n. clock_jan05) Empty_Project = Inr []"
    by (simp add: get_project_problem_def Empty_Project_def)
  show ?thesis
    using get_project_problem_index [OF a] get_project_problem_index [OF e] a e
    by (simp add: Empty_Project_def)
qed

text \<open>
  C9. A violation list that \<^verbatim>\<open>check_issue\<close> returns holds every code at most once, for
  every type of issue and every value of the fields.
\<close>

theorem check_issue_distinct:
  "check_issue now i = Inr errs \<Longrightarrow> distinct errs"
proof (cases "is_typed i")
  case True
  assume "check_issue now i = Inr errs"
  with True have cp: "common_problem now i (type_problem i) = Inr errs"
    by (simp add: check_issue_typed)
  have "set (type_problem i) \<inter> {''No DudeDate'', ''Delay'', ''No FixVersions'',
      ''No Component Chengdu'', ''No Labels'', ''No Implementer'', ''No Askey-Secure''} = {}"
    using type_problem_not_common [of _ i] by blast
  with cp type_problem_distinct show ?thesis
    by (rule common_problem_distinct)
next
  case False
  assume "check_issue now i = Inr errs"
  with False show ?thesis by (simp add: check_issue_untyped)
qed

theorem check_issue_distinct_witness:
  "check_issue clock_jan05 AL1_no_points =
     Inr [''No Code'', ''No Verification'', ''No StoryPoints'', ''No SubTask'', ''No DudeDate'',
          ''No FixVersions'', ''No Component Chengdu'', ''No Labels'', ''No Implementer'']
   \<and> distinct [''No Code'', ''No Verification'', ''No StoryPoints'', ''No SubTask'',
        ''No DudeDate'', ''No FixVersions'', ''No Component Chengdu'', ''No Labels'',
        ''No Implementer'']"
  using check_issue_distinct [OF check_AL1_no_points [of clock_jan05]]
    check_AL1_no_points [of clock_jan05]
  by simp

text \<open>
  C10. For a story, a bug or a review whose labels are present but empty, the violation
  list does not hold No Labels; the list holds No Labels exactly when the labels are
  \<^verbatim>\<open>None\<close>.
\<close>

theorem check_issue_labels:
  "is_typed i \<Longrightarrow> check_issue now i = Inr errs \<Longrightarrow>
   (labels (issue_fields i) = Some [] \<longrightarrow> ''No Labels'' \<notin> set errs)
   \<and> (''No Labels'' \<in> set errs) = (labels (issue_fields i) = None)"
proof -
  assume typed: "is_typed i" and res: "check_issue now i = Inr errs"
  then have cp: "common_problem now i (type_problem i) = Inr errs"
    by (simp add: check_issue_typed)
  have "(''No Labels'' \<in> set errs) = (labels (issue_fields i) = None)"
    using common_problem_labels [OF cp] type_problem_not_common [of "''No Labels''" i]
    by simp
  then show ?thesis by simp
qed

theorem check_issue_labels_witness:
  "is_typed AL1_empty_labels \<and> labels (issue_fields AL1_empty_labels) = Some []
   \<and> check_issue clock_jan15 AL1_empty_labels =
       Inr [''No Code'', ''No Verification'', ''No SubTask'', ''No DudeDate'', ''No FixVersions'',
            ''No Component Chengdu'', ''No Implementer'']
   \<and> ''No Labels'' \<notin> set [''No Code'', ''No Verification'', ''No SubTask'', ''No DudeDate'',
        ''No FixVersions'', ''No Component Chengdu'', ''No Implementer'']"
proof -
  have typed: "is_typed AL1_empty_labels"
    by (simp add: is_typed_def is_story_def example_defs)
  have lab: "labels (issue_fields AL1_empty_labels) = Some []"
    by (simp add: example_defs)
  show ?thesis
    using check_issue_labels [OF typed check_AL1_empty_labels [of clock_jan15]] typed lab
      check_AL1_empty_labels [of clock_jan15]
    by simp
qed


end
